theory Spec2Isabelle
  imports Main "HOL-Library.Word" "HOL-Library.Signed_Division"
begin

section \<open>The settings registry of GameOptimizer\<close>

text \<open>
  The C++ type \<^verbatim>\<open>int\<close> is a 32-bit two's complement integer. It is modelled as a
  32-bit word that every comparison and every division reads through \<open>sint\<close>.
\<close>

type_synonym int32 = "32 word"

text \<open>
  \<^verbatim>\<open>struct Setting { std::string name; int value; int minValue; int maxValue; }\<close>
\<close>

record Setting =
  name :: string
  "value" :: int32
  minValue :: int32
  maxValue :: int32

text \<open>
  \<^verbatim>\<open>std::min(a, b)\<close> is \<^verbatim>\<open>(b < a) ? b : a\<close> and \<^verbatim>\<open>std::max(a, b)\<close> is
  \<^verbatim>\<open>(a < b) ? b : a\<close>, both with the signed comparison of \<^verbatim>\<open>int\<close>.
\<close>

definition std_min :: "int32 \<Rightarrow> int32 \<Rightarrow> int32" where
  "std_min a b = (if sint b < sint a then b else a)"

definition std_max :: "int32 \<Rightarrow> int32 \<Rightarrow> int32" where
  "std_max a b = (if sint a < sint b then b else a)"

text \<open>
  The operator \<^verbatim>\<open>/\<close> on \<^verbatim>\<open>int\<close> truncates towards zero. The only divisor in the
  program is the constant 10, so the quotient always fits.
\<close>

definition int_div :: "int32 \<Rightarrow> int32 \<Rightarrow> int32" where
  "int_div a b = word_of_int (sint a sdiv sint b)"

text \<open>
  The state of a \<^verbatim>\<open>GameOptimizer\<close> is its only member, the vector \<^verbatim>\<open>settings\<close>.
  The member functions also print a line to \<^verbatim>\<open>std::cout\<close> for every setting they
  change; the console is not part of the registry and is left out of the state.
\<close>

definition addSetting :: "string \<Rightarrow> int32 \<Rightarrow> int32 \<Rightarrow> int32 \<Rightarrow> Setting list \<Rightarrow> Setting list" where
  "addSetting n defaultValue minV maxV settings =
     settings @ [\<lparr>name = n, value = defaultValue, minValue = minV, maxValue = maxV\<rparr>]"

fun optimizeSettings :: "int32 \<Rightarrow> Setting list \<Rightarrow> Setting list" where
  "optimizeSettings targetPerformance [] = []"
| "optimizeSettings targetPerformance (setting # settings) =
     setting\<lparr>value := std_min (maxValue setting)
                        (std_max (minValue setting) (int_div targetPerformance 10))\<rparr>
       # optimizeSettings targetPerformance settings"

fun updateSetting :: "string \<Rightarrow> int32 \<Rightarrow> Setting list \<Rightarrow> Setting list" where
  "updateSetting n v [] = []"
| "updateSetting n v (setting # settings) =
     (if name setting = n
      then setting\<lparr>value := std_min (maxValue setting) (std_max (minValue setting) v)\<rparr>
      else setting)
       # updateSetting n v settings"

section \<open>The settings file of SettingsManager\<close>

text \<open>
  A file is the sequence of its characters. The streams of the standard library are
  modelled by what the program observes of them: the characters still to be read, the
  flag \<^verbatim>\<open>eofbit\<close>, and failure (\<^verbatim>\<open>failbit\<close>) as the result \<open>None\<close>.
\<close>

definition newline :: char where
  "newline = CHR 0x0A"

text \<open>
  \<^verbatim>\<open>std::isspace\<close> and \<^verbatim>\<open>std::isdigit\<close> in the classic locale: the space and the
  characters 9 to 13 are white space, the characters 48 to 57 are the decimal digits.
\<close>

definition isspace :: "char \<Rightarrow> bool" where
  "isspace c = (c = CHR '' '' \<or> (9 \<le> (of_char c :: nat) \<and> (of_char c :: nat) \<le> 13))"

definition isdigit :: "char \<Rightarrow> bool" where
  "isdigit c = (48 \<le> (of_char c :: nat) \<and> (of_char c :: nat) \<le> 57)"

definition digit_val :: "char \<Rightarrow> nat" where
  "digit_val c = of_char c - 48"

definition digit_char :: "nat \<Rightarrow> char" where
  "digit_char d = ''0123456789'' ! d"

text \<open>
  \<^verbatim>\<open>file << setting.value\<close> writes an \<^verbatim>\<open>int\<close> in decimal: a minus sign for a negative
  number, then the digits of the magnitude, most significant first. \<open>digit_char\<close> is only
  applied to numbers below 10.
\<close>

fun digits_of :: "nat \<Rightarrow> string" where
  "digits_of n = (if n < 10 then [digit_char n] else digits_of (n div 10) @ [digit_char (n mod 10)])"

declare digits_of.simps [simp del]

definition show_int :: "int32 \<Rightarrow> string" where
  "show_int v = (if sint v < 0 then CHR ''-'' # digits_of (nat (- sint v)) else digits_of (nat (sint v)))"

text \<open>
  \<^verbatim>\<open>std::getline(stream, str, delim)\<close> on a stream that is still good: it takes the
  characters before the first delimiter and discards the delimiter. If the input ends
  before a delimiter it takes everything and sets \<^verbatim>\<open>eofbit\<close>. If it extracts no character
  at all, not even a delimiter, it sets \<^verbatim>\<open>failbit\<close>, and the stream then converts to
  false. The result is the string taken, the rest of the input and \<^verbatim>\<open>eofbit\<close>.
\<close>

definition getline :: "char \<Rightarrow> string \<Rightarrow> (string \<times> string \<times> bool) option" where
  "getline delim s =
     (if s = [] then None
      else (case dropWhile (\<lambda>c. c \<noteq> delim) s of
              [] \<Rightarrow> Some (takeWhile (\<lambda>c. c \<noteq> delim) s, [], True)
            | d # rest \<Rightarrow> Some (takeWhile (\<lambda>c. c \<noteq> delim) s, rest, False)))"

text \<open>
  \<^verbatim>\<open>ss >> value\<close> for an \<^verbatim>\<open>int\<close>, with the default flags (skip white space, base 10).
  It fails at once on a stream whose \<^verbatim>\<open>eofbit\<close> is set. Otherwise it skips white space,
  fails if nothing is left, reads one optional sign and then the longest run of digits,
  fails if there is no digit, and fails if the number does not fit an \<^verbatim>\<open>int\<close>. Whatever
  follows the digits stays in the stream. The number is accumulated without a bound here
  and compared with the range of \<^verbatim>\<open>int\<close> at the end.
\<close>

definition digits_value :: "string \<Rightarrow> nat" where
  "digits_value ds = foldl (\<lambda>acc c. acc * 10 + digit_val c) 0 ds"

definition extract_int :: "string \<Rightarrow> bool \<Rightarrow> int32 option" where
  "extract_int s eof =
     (if eof then None
      else (case dropWhile isspace s of
              [] \<Rightarrow> None
            | c # cs \<Rightarrow>
                (let negative = (c = CHR ''-'');
                     body = (if c = CHR ''-'' \<or> c = CHR ''+'' then cs else c # cs);
                     ds = takeWhile isdigit body;
                     k = (if negative then - int (digits_value ds) else int (digits_value ds))
                 in if ds = [] then None
                    else if k < - (2 ^ 31) \<or> 2 ^ 31 \<le> k then None
                    else Some (word_of_int k))))"

text \<open>
  The body of the loop of \<^verbatim>\<open>loadSettings\<close>, for one line:
  \<^verbatim>\<open>if (std::getline(ss, name, '=') && (ss >> value)) optimizer.updateSetting(name, value);\<close>
\<close>

definition loadLine :: "string \<Rightarrow> Setting list \<Rightarrow> Setting list" where
  "loadLine line settings =
     (case getline CHR ''='' line of
        None \<Rightarrow> settings
      | Some (nm, rest, eof) \<Rightarrow>
          (case extract_int rest eof of
             None \<Rightarrow> settings
           | Some v \<Rightarrow> updateSetting nm v settings))"

text \<open>
  \<^verbatim>\<open>while (std::getline(file, line)) { ... }\<close>. A \<^verbatim>\<open>getline\<close> that reaches the end of the
  file leaves nothing to read, so the next one fails whether \<^verbatim>\<open>eofbit\<close> is set or not, and
  the loop does not need the flag. Every round consumes at least one character.
\<close>

function loadLoop :: "string \<Rightarrow> Setting list \<Rightarrow> Setting list" where
  "loadLoop file settings =
     (case getline newline file of
        None \<Rightarrow> settings
      | Some (line, rest, eof) \<Rightarrow> loadLoop rest (loadLine line settings))"
  by pat_completeness auto
termination
proof (relation "measure (\<lambda>(file, settings). length file)")
  show "wf (measure (\<lambda>(file, settings). length file))"
    by simp
next
  fix content :: string and settings :: "Setting list" and x2 line y rest eof
  assume "getline newline content = Some x2" "(line, y) = x2" "(rest, eof) = y"
  then have g: "getline newline content = Some (line, rest, eof)"
    by simp
  have "length (dropWhile (\<lambda>c. c \<noteq> newline) content) \<le> length content"
    by (rule length_dropWhile_le)
  with g have "length rest < length content"
    by (auto simp: getline_def split: if_splits list.splits)
  then show "((rest, loadLine line settings), content, settings)
               \<in> measure (\<lambda>(file, settings). length file)"
    by simp
qed

declare loadLoop.simps [simp del]

text \<open>
  \<^verbatim>\<open>loadSettings\<close> gets the content of the file at \<^verbatim>\<open>filePath\<close>, or \<open>None\<close> when the file
  cannot be opened; then it returns without touching the optimizer.
\<close>

definition loadSettings :: "string option \<Rightarrow> Setting list \<Rightarrow> Setting list" where
  "loadSettings file settings =
     (case file of None \<Rightarrow> settings | Some content \<Rightarrow> loadLoop content settings)"

text \<open>
  \<^verbatim>\<open>saveSettings\<close> writes a header line and one line \<^verbatim>\<open>name=value\<close> per setting, in the
  order of the vector. Its result is the new content of the file, or \<open>None\<close> when the file
  cannot be opened for writing (\<open>is_open\<close> is false) and nothing is written.
\<close>

fun writeSettings :: "Setting list \<Rightarrow> string" where
  "writeSettings [] = []"
| "writeSettings (setting # settings) =
     name setting @ ''='' @ show_int (value setting) @ [newline] @ writeSettings settings"

definition saveSettings :: "bool \<Rightarrow> Setting list \<Rightarrow> string option" where
  "saveSettings is_open settings =
     (if \<not> is_open then None
      else Some (''Game Settings:'' @ [newline] @ writeSettings settings))"

section \<open>Vocabulary of the properties\<close>

text \<open>A setting is within its bounds when \<^verbatim>\<open>minValue <= value <= maxValue\<close> as signed integers.\<close>

definition in_bounds :: "Setting \<Rightarrow> bool" where
  "in_bounds s = (sint (minValue s) \<le> sint (value s) \<and> sint (value s) \<le> sint (maxValue s))"

text \<open>
  A client of \<^verbatim>\<open>GameOptimizer\<close> calls its three mutating member functions in any order,
  starting from the empty vector of a freshly constructed object.
\<close>

datatype call =
    Add string int32 int32 int32
  | OptimizeAll int32
  | Update string int32

fun apply_call :: "call \<Rightarrow> Setting list \<Rightarrow> Setting list" where
  "apply_call (Add n d lo hi) settings = addSetting n d lo hi settings"
| "apply_call (OptimizeAll t) settings = optimizeSettings t settings"
| "apply_call (Update n v) settings = updateSetting n v settings"

fun run_calls :: "call list \<Rightarrow> Setting list \<Rightarrow> Setting list" where
  "run_calls [] settings = settings"
| "run_calls (c # cs) settings = run_calls cs (apply_call c settings)"

text \<open>The caller contract of \<^verbatim>\<open>addSetting\<close>: the default value lies within the bounds given.\<close>

fun add_within_bounds :: "call \<Rightarrow> bool" where
  "add_within_bounds (Add n d lo hi) = (sint lo \<le> sint d \<and> sint d \<le> sint hi)"
| "add_within_bounds (OptimizeAll t) = True"
| "add_within_bounds (Update n v) = True"

text \<open>
  The specification's own words for the optimisation policy, over mathematical integers:
  clamp constrains a value to the closed interval from \<open>lo\<close> to \<open>hi\<close>, the candidate is the
  target divided by 10 with the quotient truncated towards zero, and \<open>derive\<close> clamps the
  candidate. These three definitions follow the specification, not the source; the source
  is \<open>optimizeSettings\<close> above.
\<close>

definition clamp_spec :: "int \<Rightarrow> int \<Rightarrow> int \<Rightarrow> int" where
  "clamp_spec x lo hi = (if x < lo then lo else if hi < x then hi else x)"

definition trunc_div_spec :: "int \<Rightarrow> int \<Rightarrow> int" where
  "trunc_div_spec a b = (if 0 \<le> a then a div b else - ((- a) div b))"

definition derive_spec :: "int \<Rightarrow> int \<Rightarrow> int \<Rightarrow> int" where
  "derive_spec targetPerformance lo hi = clamp_spec (trunc_div_spec targetPerformance 10) lo hi"

text \<open>What one line of a saved file does to one setting of the registry that reads it.\<close>

definition restore :: "Setting \<Rightarrow> Setting \<Rightarrow> Setting" where
  "restore saved s =
     (if name s = name saved
      then s\<lparr>value := std_min (maxValue s) (std_max (minValue s) (value saved))\<rparr>
      else s)"

text \<open>
  The text of the specification's example of malformed lines: a good line, a line without
  a separator and a line whose value is not a number.
\<close>

definition malformed_example :: string where
  "malformed_example =
     ''Resolution=1440'' @ [newline] @ ''garbageline'' @ [newline] @ ''TextureQuality=abc'' @ [newline]"

text \<open>The number that a sign (empty, plus or minus) and a run of decimal digits denote.\<close>

definition decimal_value :: "string \<Rightarrow> string \<Rightarrow> int" where
  "decimal_value sg ds = (if sg = ''-'' then - int (digits_value ds) else int (digits_value ds))"

section \<open>Facts about the registry operations\<close>

lemma length_optimizeSettings: "length (optimizeSettings t settings) = length settings"
  by (induction settings) simp_all

lemma length_updateSetting: "length (updateSetting n v settings) = length settings"
  by (induction settings) simp_all

lemma optimizeSettings_map:
  "optimizeSettings t settings =
     map (\<lambda>s. s\<lparr>value := std_min (maxValue s) (std_max (minValue s) (int_div t 10))\<rparr>) settings"
  by (induction settings) simp_all

lemma updateSetting_map:
  "updateSetting n v settings =
     map (\<lambda>s. if name s = n then s\<lparr>value := std_min (maxValue s) (std_max (minValue s) v)\<rparr> else s) settings"
  by (induction settings) simp_all

lemma sint_int_div_10: "sint (int_div t 10) = sint t sdiv 10"
proof -
  have r: "- (2 ^ 31) \<le> sint t" "sint t < 2 ^ 31"
    using sint_ge [of t] sint_lt [of t] by simp_all
  have "sint t sdiv 10 = (if 0 \<le> sint t then sint t div 10 else - ((- sint t) div 10))"
    by (simp add: signed_divide_int_def sgn_if)
  with r have "- (2 ^ 31) \<le> sint t sdiv 10" "sint t sdiv 10 < 2 ^ 31"
    by (simp_all split: if_splits)
  then have "signed_take_bit 31 (sint t sdiv 10) = sint t sdiv 10"
    by (rule signed_take_bit_int_eq_self)
  then show ?thesis
    by (simp add: int_div_def sint_sbintrunc')
qed

lemma sdiv_10_trunc: "(k::int) sdiv 10 = trunc_div_spec k 10"
  by (simp add: signed_divide_int_def trunc_div_spec_def sgn_if)

lemma sint_clamp:
  "sint lo \<le> sint hi \<Longrightarrow> sint (std_min hi (std_max lo x)) = clamp_spec (sint x) (sint lo) (sint hi)"
  by (simp add: std_min_def std_max_def clamp_spec_def)

lemma clamp_in_bounds:
  "sint lo \<le> sint hi \<Longrightarrow>
     sint lo \<le> sint (std_min hi (std_max lo x)) \<and> sint (std_min hi (std_max lo x)) \<le> sint hi"
  by (simp add: std_min_def std_max_def)

lemma clamp_inverted:
  "sint hi < sint lo \<Longrightarrow> std_min hi (std_max lo x) = hi"
  by (simp add: std_min_def std_max_def)

lemma in_bounds_ordered: "in_bounds s \<Longrightarrow> sint (minValue s) \<le> sint (maxValue s)"
  by (simp add: in_bounds_def)

lemma in_bounds_clamp:
  "in_bounds s \<Longrightarrow> in_bounds (s\<lparr>value := std_min (maxValue s) (std_max (minValue s) x)\<rparr>)"
  using clamp_in_bounds [of "minValue s" "maxValue s" x]
  by (simp add: in_bounds_def)

lemma in_bounds_optimizeSettings:
  "list_all in_bounds settings \<Longrightarrow> list_all in_bounds (optimizeSettings t settings)"
  by (induction settings) (simp_all add: in_bounds_clamp)

lemma in_bounds_updateSetting:
  "list_all in_bounds settings \<Longrightarrow> list_all in_bounds (updateSetting n v settings)"
  by (induction settings) (simp_all add: in_bounds_clamp)

lemma in_bounds_addSetting:
  "list_all in_bounds settings \<Longrightarrow> sint lo \<le> sint d \<Longrightarrow> sint d \<le> sint hi \<Longrightarrow>
     list_all in_bounds (addSetting n d lo hi settings)"
  by (simp add: addSetting_def in_bounds_def)

lemma in_bounds_apply_call:
  "list_all in_bounds settings \<Longrightarrow> add_within_bounds c \<Longrightarrow> list_all in_bounds (apply_call c settings)"
  by (cases c) (simp_all add: in_bounds_addSetting in_bounds_optimizeSettings in_bounds_updateSetting)

lemma in_bounds_run_calls:
  "list_all in_bounds settings \<Longrightarrow> list_all add_within_bounds cs \<Longrightarrow>
     list_all in_bounds (run_calls cs settings)"
  by (induction cs arbitrary: settings) (simp_all add: in_bounds_apply_call)

lemma list_all_take: "list_all P xs \<Longrightarrow> list_all P (take k xs)"
  by (auto simp: list_all_iff dest: in_set_takeD)

section \<open>Facts about the decimal codec\<close>

lemma digit_char_facts:
  assumes "d < 10"
  shows "isdigit (digit_char d)" and "digit_val (digit_char d) = d"
    and "digit_char d \<noteq> newline"
proof -
  from assms have "d = 0 \<or> d = 1 \<or> d = 2 \<or> d = 3 \<or> d = 4 \<or> d = 5 \<or> d = 6 \<or> d = 7 \<or> d = 8 \<or> d = 9"
    by arith
  then show "isdigit (digit_char d)" and "digit_val (digit_char d) = d"
    and "digit_char d \<noteq> newline"
    by (auto simp: digit_char_def isdigit_def digit_val_def newline_def)
qed

lemma isdigit_not_special:
  assumes "isdigit c"
  shows "\<not> isspace c" and "c \<noteq> CHR ''-''" and "c \<noteq> CHR ''+''" and "c \<noteq> newline"
  using assms by (auto simp: isdigit_def isspace_def newline_def)

lemma digits_of_all_digits: "list_all isdigit (digits_of n)"
proof (induction n rule: digits_of.induct)
  case (1 n)
  show ?case
  proof (cases "n < 10")
    case True
    then show ?thesis
      by (simp add: digits_of.simps [of n] digit_char_facts)
  next
    case False
    with "1" show ?thesis
      by (simp add: digits_of.simps [of n] digit_char_facts)
  qed
qed

lemma digits_of_not_empty: "digits_of n \<noteq> []"
  by (simp add: digits_of.simps [of n])

lemma digits_value_snoc: "digits_value (ds @ [c]) = digits_value ds * 10 + digit_val c"
  by (simp add: digits_value_def)

lemma digits_value_digits_of: "digits_value (digits_of n) = n"
proof (induction n rule: digits_of.induct)
  case (1 n)
  show ?case
  proof (cases "n < 10")
    case True
    then show ?thesis
      by (simp add: digits_of.simps [of n] digits_value_def digit_char_facts)
  next
    case False
    with "1" have "digits_value (digits_of (n div 10)) = n div 10"
      by simp
    with False show ?thesis
      by (simp add: digits_of.simps [of n] digits_value_snoc digit_char_facts)
  qed
qed

lemma takeWhile_isdigit_digits_of: "takeWhile isdigit (digits_of n) = digits_of n"
  using digits_of_all_digits [of n] by (simp add: list_all_iff)

lemma newline_notin_show_int: "newline \<notin> set (show_int v)"
proof -
  have "\<forall>c\<in>set (digits_of n). c \<noteq> newline" for n
    using digits_of_all_digits [of n] by (auto simp: list_all_iff dest: isdigit_not_special(4))
  then show ?thesis
    by (auto simp: show_int_def newline_def)
qed

lemma dropWhile_isspace_prefix:
  "list_all isspace ws \<Longrightarrow> \<not> isspace c \<Longrightarrow> dropWhile isspace (ws @ c # r) = c # r"
  by (induction ws) simp_all

lemma takeWhile_isdigit_prefix:
  "list_all isdigit ds \<Longrightarrow> trailing = [] \<or> \<not> isdigit (hd trailing) \<Longrightarrow>
     takeWhile isdigit (ds @ trailing) = ds"
proof (induction ds)
  case Nil
  then show ?case by (cases trailing) simp_all
next
  case (Cons c cs)
  then show ?case by simp
qed

lemma sign_not_space: "\<not> isspace CHR ''-''" "\<not> isspace CHR ''+''"
  by (simp_all add: isspace_def)

lemma extract_int_minus:
  assumes "list_all isspace ws" "ds \<noteq> []" "list_all isdigit ds"
    and "trailing = [] \<or> \<not> isdigit (hd trailing)"
  shows "extract_int (ws @ CHR ''-'' # ds @ trailing) False =
           (if int (digits_value ds) \<le> 2 ^ 31 then Some (word_of_int (- int (digits_value ds))) else None)"
proof -
  have dw: "dropWhile isspace (ws @ CHR ''-'' # ds @ trailing) = CHR ''-'' # ds @ trailing"
    using assms(1) sign_not_space(1) by (rule dropWhile_isspace_prefix)
  have tw: "takeWhile isdigit (ds @ trailing) = ds"
    using assms(3,4) by (rule takeWhile_isdigit_prefix)
  show ?thesis
    using assms(2) by (simp add: extract_int_def Let_def dw tw)
qed

lemma extract_int_plus:
  assumes "list_all isspace ws" "ds \<noteq> []" "list_all isdigit ds"
    and "trailing = [] \<or> \<not> isdigit (hd trailing)"
  shows "extract_int (ws @ CHR ''+'' # ds @ trailing) False =
           (if int (digits_value ds) < 2 ^ 31 then Some (word_of_int (int (digits_value ds))) else None)"
proof -
  have dw: "dropWhile isspace (ws @ CHR ''+'' # ds @ trailing) = CHR ''+'' # ds @ trailing"
    using assms(1) sign_not_space(2) by (rule dropWhile_isspace_prefix)
  have tw: "takeWhile isdigit (ds @ trailing) = ds"
    using assms(3,4) by (rule takeWhile_isdigit_prefix)
  show ?thesis
    using assms(2) by (simp add: extract_int_def Let_def dw tw)
qed

lemma extract_int_unsigned:
  assumes "list_all isspace ws" "ds \<noteq> []" "list_all isdigit ds"
    and "trailing = [] \<or> \<not> isdigit (hd trailing)"
  shows "extract_int (ws @ ds @ trailing) False =
           (if int (digits_value ds) < 2 ^ 31 then Some (word_of_int (int (digits_value ds))) else None)"
proof -
  from assms(2) obtain c cs where ds: "ds = c # cs"
    by (cases ds) auto
  with assms(3) have c: "isdigit c" and cs: "list_all isdigit cs"
    by simp_all
  from c have nc: "\<not> isspace c" "c \<noteq> CHR ''-''" "c \<noteq> CHR ''+''"
    by (simp_all add: isdigit_not_special)
  have dw: "dropWhile isspace (ws @ c # cs @ trailing) = c # cs @ trailing"
    using assms(1) nc(1) by (rule dropWhile_isspace_prefix)
  have tw: "takeWhile isdigit (cs @ trailing) = cs"
    using cs assms(4) by (rule takeWhile_isdigit_prefix)
  show ?thesis
    using c nc by (simp add: ds extract_int_def Let_def dw tw)
qed

lemma extract_int_show_int: "extract_int (show_int v) False = Some v"
proof (cases "sint v < 0")
  case True
  define n where "n = nat (- sint v)"
  have r: "- (2 ^ 31) \<le> sint v"
    using sint_ge [of v] by simp
  from True have k: "- int n = sint v"
    by (simp add: n_def)
  have s: "show_int v = CHR ''-'' # digits_of n"
    using True by (simp add: show_int_def n_def)
  have "extract_int ([] @ CHR ''-'' # digits_of n @ []) False =
          (if int (digits_value (digits_of n)) \<le> 2 ^ 31
           then Some (word_of_int (- int (digits_value (digits_of n)))) else None)"
    by (rule extract_int_minus) (simp_all add: digits_of_not_empty digits_of_all_digits)
  with r k s show ?thesis
    by (simp add: digits_value_digits_of)
next
  case False
  define n where "n = nat (sint v)"
  have r: "sint v < 2 ^ 31"
    using sint_lt [of v] by simp
  from False have k: "int n = sint v"
    by (simp add: n_def)
  have s: "show_int v = digits_of n"
    using False by (simp add: show_int_def n_def)
  have "extract_int ([] @ digits_of n @ []) False =
          (if int (digits_value (digits_of n)) < 2 ^ 31
           then Some (word_of_int (int (digits_value (digits_of n)))) else None)"
    by (rule extract_int_unsigned) (simp_all add: digits_of_not_empty digits_of_all_digits)
  with r k s show ?thesis
    by (simp add: digits_value_digits_of)
qed

section \<open>Facts about reading lines\<close>

lemma getline_empty: "getline d [] = None"
  by (simp add: getline_def)

lemma dropWhile_until: "d \<notin> set a \<Longrightarrow> dropWhile (\<lambda>c. c \<noteq> d) (a @ r) = dropWhile (\<lambda>c. c \<noteq> d) r"
  by (induction a) auto

lemma takeWhile_until: "d \<notin> set a \<Longrightarrow> takeWhile (\<lambda>c. c \<noteq> d) (a @ r) = a @ takeWhile (\<lambda>c. c \<noteq> d) r"
  by (induction a) auto

lemma getline_delimited:
  "d \<notin> set a \<Longrightarrow> getline d (a @ d # b) = Some (a, b, False)"
  by (simp add: getline_def dropWhile_until takeWhile_until)

lemma getline_undelimited:
  "d \<notin> set a \<Longrightarrow> a \<noteq> [] \<Longrightarrow> getline d a = Some (a, [], True)"
proof -
  assume a: "d \<notin> set a" "a \<noteq> []"
  from a(1) have "dropWhile (\<lambda>c. c \<noteq> d) a = []"
    by (induction a) auto
  moreover from a(1) have "takeWhile (\<lambda>c. c \<noteq> d) a = a"
    by (induction a) auto
  ultimately show ?thesis
    using a(2) by (simp add: getline_def del: dropWhile_eq_Nil_conv takeWhile_eq_all_conv)
qed

lemma loadLoop_empty: "loadLoop [] settings = settings"
  by (simp add: loadLoop.simps [of "[]"] getline_empty)

lemma loadLoop_line:
  "newline \<notin> set l \<Longrightarrow> loadLoop (l @ newline # rest) settings = loadLoop rest (loadLine l settings)"
  by (simp add: loadLoop.simps [of "l @ newline # rest"] getline_delimited)

lemma loadLoop_last_line:
  "newline \<notin> set l \<Longrightarrow> l \<noteq> [] \<Longrightarrow> loadLoop l settings = loadLine l settings"
  by (simp add: loadLoop.simps [of l] getline_undelimited loadLoop_empty)

lemma loadLine_no_separator:
  "CHR ''='' \<notin> set l \<Longrightarrow> loadLine l settings = settings"
proof (cases "l = []")
  case True
  then show ?thesis
    by (simp add: loadLine_def getline_empty)
next
  case False
  assume "CHR ''='' \<notin> set l"
  with False show ?thesis
    by (simp add: loadLine_def getline_undelimited extract_int_def)
qed

lemma loadLine_separator:
  "CHR ''='' \<notin> set nm \<Longrightarrow>
     loadLine (nm @ CHR ''='' # rest) settings =
       (case extract_int rest False of None \<Rightarrow> settings | Some v \<Rightarrow> updateSetting nm v settings)"
  by (simp add: loadLine_def getline_delimited)

section \<open>Facts about saving and loading\<close>

lemma updateSetting_restore:
  "updateSetting (name saved) (value saved) settings = map (restore saved) settings"
  by (simp add: updateSetting_map restore_def)

lemma loadLine_saved:
  assumes "CHR ''='' \<notin> set (name saved)"
  shows "loadLine (name saved @ CHR ''='' # show_int (value saved)) settings = map (restore saved) settings"
  using assms by (simp add: loadLine_separator extract_int_show_int updateSetting_restore)

lemma loadLoop_writeSettings:
  assumes "\<forall>s\<in>set saved. CHR ''='' \<notin> set (name s) \<and> newline \<notin> set (name s)"
  shows "loadLoop (writeSettings saved) settings = map (\<lambda>s. fold restore saved s) settings"
  using assms
proof (induction saved arbitrary: settings)
  case Nil
  then show ?case by (simp add: loadLoop_empty)
next
  case (Cons a saved)
  have nl: "newline \<notin> set (name a @ CHR ''='' # show_int (value a))"
    using Cons.prems newline_notin_show_int [of "value a"] by (simp add: newline_def)
  have "loadLoop (writeSettings (a # saved)) settings
          = loadLoop ((name a @ CHR ''='' # show_int (value a)) @ newline # writeSettings saved) settings"
    by simp
  also have "\<dots> = loadLoop (writeSettings saved) (loadLine (name a @ CHR ''='' # show_int (value a)) settings)"
    using nl by (rule loadLoop_line)
  also have "\<dots> = loadLoop (writeSettings saved) (map (restore a) settings)"
    using Cons.prems by (simp add: loadLine_saved)
  also have "\<dots> = map (\<lambda>s. fold restore saved s) (map (restore a) settings)"
    using Cons.prems by (intro Cons.IH) simp
  finally show ?case by simp
qed

lemma loadSettings_saveSettings:
  assumes "\<forall>s\<in>set saved. CHR ''='' \<notin> set (name s) \<and> newline \<notin> set (name s)"
  shows "loadSettings (saveSettings True saved) settings = map (\<lambda>s. fold restore saved s) settings"
proof -
  have h: "newline \<notin> set ''Game Settings:''" "CHR ''='' \<notin> set ''Game Settings:''"
    by (simp_all add: newline_def)
  have "loadSettings (saveSettings True saved) settings
          = loadLoop (''Game Settings:'' @ newline # writeSettings saved) settings"
    by (simp add: loadSettings_def saveSettings_def)
  also have "\<dots> = loadLoop (writeSettings saved) (loadLine ''Game Settings:'' settings)"
    using h(1) by (rule loadLoop_line)
  also have "loadLine ''Game Settings:'' settings = settings"
    using h(2) by (rule loadLine_no_separator)
  finally show ?thesis
    using assms by (simp add: loadLoop_writeSettings)
qed

lemma clamp_within: 
  "sint lo \<le> sint x \<Longrightarrow> sint x \<le> sint hi \<Longrightarrow> std_min hi (std_max lo x) = x"
proof -
  assume "sint lo \<le> sint x" "sint x \<le> sint hi"
  then have "sint (std_min hi (std_max lo x)) = sint x"
    by (auto simp: std_min_def std_max_def)
  then show ?thesis
    by (rule signed_word_eqI)
qed

lemma restore_same:
  assumes "in_bounds r" "name s = name r" "minValue s = minValue r" "maxValue s = maxValue r"
  shows "restore r s = r"
  using assms by (simp add: restore_def in_bounds_def clamp_within)

lemma fold_restore_other_names:
  "name s \<notin> set (map name saved) \<Longrightarrow> fold restore saved s = s"
  by (induction saved arbitrary: s) (auto simp: restore_def)

lemma fold_restore_distinct:
  assumes "distinct (map name saved)" "r \<in> set saved" "in_bounds r"
    and "name s = name r" "minValue s = minValue r" "maxValue s = maxValue r"
  shows "fold restore saved s = r"
  using assms
proof (induction saved arbitrary: s)
  case Nil
  then show ?case by simp
next
  case (Cons a saved)
  show ?case
  proof (cases "a = r")
    case True
    with Cons.prems have "restore a s = r"
      by (simp add: restore_same)
    moreover from True Cons.prems(1) have "name r \<notin> set (map name saved)"
      by simp
    ultimately show ?thesis
      by (simp add: fold_restore_other_names)
  next
    case False
    with Cons.prems have r: "r \<in> set saved"
      by simp
    with Cons.prems(1) have "name a \<noteq> name r"
      by auto
    with Cons.prems(4) have "restore a s = s"
      by (simp add: restore_def)
    with Cons.IH [of s] Cons.prems r show ?thesis
      by simp
  qed
qed

lemma map_fold_restore:
  assumes "distinct (map name saved)" "list_all in_bounds saved"
    and "map name fresh = map name saved" "map minValue fresh = map minValue saved"
    and "map maxValue fresh = map maxValue saved"
  shows "map (\<lambda>s. fold restore saved s) fresh = saved"
proof (rule nth_equalityI)
  from assms(3) have len: "length fresh = length saved"
    by (rule map_eq_imp_length_eq)
  then show "length (map (\<lambda>s. fold restore saved s) fresh) = length saved"
    by simp
  fix i assume "i < length (map (\<lambda>s. fold restore saved s) fresh)"
  with len have i: "i < length saved" "i < length fresh"
    by simp_all
  from i assms(3) have n: "name (fresh ! i) = name (saved ! i)"
    by (metis nth_map)
  from i assms(4) have lo: "minValue (fresh ! i) = minValue (saved ! i)"
    by (metis nth_map)
  from i assms(5) have hi: "maxValue (fresh ! i) = maxValue (saved ! i)"
    by (metis nth_map)
  from i assms(2) have b: "in_bounds (saved ! i)"
    by (simp add: list_all_length)
  from i have m: "saved ! i \<in> set saved"
    by simp
  from assms(1) m b n lo hi have "fold restore saved (fresh ! i) = saved ! i"
    by (rule fold_restore_distinct)
  with i show "map (\<lambda>s. fold restore saved s) fresh ! i = saved ! i"
    by simp
qed

lemma loadLine_Resolution_1440:
  "loadLine ''Resolution=1440'' settings = updateSetting ''Resolution'' 1440 settings"
proof -
  have "extract_int ''1440'' False = Some 1440"
    by (simp add: extract_int_def isspace_def isdigit_def digits_value_def digit_val_def)
  then show ?thesis
    using loadLine_separator [of "''Resolution''" "''1440''" settings] by simp
qed

lemma loadLine_TextureQuality_abc:
  "loadLine ''TextureQuality=abc'' settings = settings"
proof -
  have "extract_int ''abc'' False = None"
    by (simp add: extract_int_def isspace_def isdigit_def)
  then show ?thesis
    using loadLine_separator [of "''TextureQuality''" "''abc''" settings] by simp
qed

lemma loadLoop_malformed_example:
  "loadLoop malformed_example settings = updateSetting ''Resolution'' 1440 settings"
proof -
  have "loadLoop malformed_example settings
          = loadLoop (''Resolution=1440'' @ newline # ''garbageline'' @ newline # ''TextureQuality=abc'' @ newline # []) settings"
    by (simp add: malformed_example_def)
  also have "\<dots> = loadLoop (''garbageline'' @ newline # ''TextureQuality=abc'' @ newline # [])
                      (loadLine ''Resolution=1440'' settings)"
    by (rule loadLoop_line) (simp add: newline_def)
  also have "\<dots> = loadLoop (''TextureQuality=abc'' @ newline # [])
                      (loadLine ''garbageline'' (loadLine ''Resolution=1440'' settings))"
    by (rule loadLoop_line) (simp add: newline_def)
  also have "\<dots> = loadLoop []
                      (loadLine ''TextureQuality=abc'' (loadLine ''garbageline'' (loadLine ''Resolution=1440'' settings)))"
    by (rule loadLoop_line) (simp add: newline_def)
  also have "\<dots> = loadLine ''garbageline'' (loadLine ''Resolution=1440'' settings)"
    by (simp only: loadLoop_empty loadLine_TextureQuality_abc)
  also have "\<dots> = loadLine ''Resolution=1440'' settings"
    by (rule loadLine_no_separator) simp
  finally show ?thesis
    by (simp only: loadLine_Resolution_1440)
qed

lemma loadLoop_append:
  "a = [] \<or> last a = newline \<Longrightarrow> loadLoop (a @ b) settings = loadLoop b (loadLoop a settings)"
proof (induction a arbitrary: settings rule: length_induct)
  case (1 a)
  show ?case
  proof (cases "a = []")
    case True
    then show ?thesis
      by (simp add: loadLoop_empty)
  next
    case False
    with "1.prems" have "last a = newline"
      by simp
    with False have "newline \<in> set a"
      using last_in_set [of a] by simp
    then obtain l rest where a: "a = l @ newline # rest" and l: "newline \<notin> set l"
      by (auto dest: split_list_first)
    from a \<open>last a = newline\<close> have rest: "rest = [] \<or> last rest = newline"
      by (cases "rest = []") simp_all
    from a have "length rest < length a"
      by simp
    with "1.IH" rest have ih: "loadLoop (rest @ b) s = loadLoop b (loadLoop rest s)" for s
      by blast
    have "loadLoop (a @ b) settings = loadLoop (l @ newline # (rest @ b)) settings"
      by (simp add: a)
    also have "\<dots> = loadLoop (rest @ b) (loadLine l settings)"
      using l by (rule loadLoop_line)
    also have "\<dots> = loadLoop b (loadLoop rest (loadLine l settings))"
      by (rule ih)
    also have "loadLoop rest (loadLine l settings) = loadLoop (l @ newline # rest) settings"
      using l by (rule loadLoop_line [symmetric])
    finally show ?thesis
      by (simp add: a)
  qed
qed

lemma loadLoop_skips_line:
  assumes "before = [] \<or> last before = newline" and "newline \<notin> set l"
    and "\<And>s. loadLine l s = s"
  shows "loadLoop (before @ l @ [newline] @ after) settings = loadLoop (before @ after) settings"
proof -
  have "loadLoop (before @ l @ [newline] @ after) settings
          = loadLoop (l @ newline # after) (loadLoop before settings)"
    using assms(1) by (simp add: loadLoop_append)
  also have "\<dots> = loadLoop after (loadLine l (loadLoop before settings))"
    using assms(2) by (rule loadLoop_line)
  also have "\<dots> = loadLoop after (loadLoop before settings)"
    by (simp only: assms(3))
  also have "\<dots> = loadLoop (before @ after) settings"
    using assms(1) by (simp add: loadLoop_append)
  finally show ?thesis .
qed

lemma loadLine_unparsed:
  "CHR ''='' \<notin> set nm \<Longrightarrow> extract_int rest False = None \<Longrightarrow>
     loadLine (nm @ CHR ''='' # rest) settings = settings"
  by (simp add: loadLine_separator)

section \<open>Properties of the registry\<close>

text \<open>
  C1, as the specification states it: after every call of a sequence of add, optimizeAll and
  update calls, also one whose add calls pass a default outside the bounds, every setting
  is within its bounds. \<^verbatim>\<open>addSetting\<close> stores the default as it is given, so the claim fails
  after \<^verbatim>\<open>addSetting("Texture Quality", 10, 1, 5)\<close> on a fresh optimizer: the value is 10.
\<close>

theorem bounds_invariant_counterexample:
  "\<not> list_all in_bounds (run_calls [Add ''Texture Quality'' 10 1 5] [])"
  by (simp add: addSetting_def in_bounds_def)

text \<open>
  C1, amended: for every sequence of add, optimizeAll and update calls on a fresh optimizer
  in which every add call passes a default with \<^verbatim>\<open>minValue <= defaultValue <= maxValue\<close>,
  every setting of the registry is within its bounds after each call of the sequence.
\<close>

theorem bounds_invariant:
  assumes "list_all add_within_bounds cs"
  shows "\<forall>k\<le>length cs. list_all in_bounds (run_calls (take k cs) [])"
  using assms by (simp add: in_bounds_run_calls list_all_take)

theorem bounds_invariant_witness:
  "list_all add_within_bounds [Add ''Resolution'' 1080 720 2160, OptimizeAll 60, Update ''Resolution'' 4000]
   \<and> list_all in_bounds
       (run_calls [Add ''Resolution'' 1080 720 2160, OptimizeAll 60, Update ''Resolution'' 4000] [])
   \<and> map value (run_calls [Add ''Resolution'' 1080 720 2160, OptimizeAll 60, Update ''Resolution'' 4000] [])
       = [2160]"
proof -
  have h: "list_all add_within_bounds
             [Add ''Resolution'' 1080 720 2160, OptimizeAll 60, Update ''Resolution'' 4000]"
    by simp
  from bounds_invariant [OF h, THEN spec, of 3] have
    "list_all in_bounds (run_calls (take 3
       [Add ''Resolution'' 1080 720 2160, OptimizeAll 60, Update ''Resolution'' 4000]) [])"
    by simp
  then show ?thesis
    by (simp add: addSetting_def std_min_def std_max_def int_div_def)
qed

text \<open>
  C2: for every target performance and every setting with \<^verbatim>\<open>minValue <= maxValue\<close>,
  optimizeSettings sets the value to the target divided by 10, truncated towards zero and
  clamped into the bounds; in particular the targets 1000, -50 and 35 give 5, 1 and 3 for a
  setting with the bounds 1 and 5.
\<close>

theorem optimizeSettings_derive:
  "(\<forall>i<length settings. sint (minValue (settings ! i)) \<le> sint (maxValue (settings ! i)) \<longrightarrow>
      sint (value (optimizeSettings t settings ! i))
        = derive_spec (sint t) (sint (minValue (settings ! i))) (sint (maxValue (settings ! i))))
   \<and> map value (optimizeSettings 1000 [\<lparr>name = n, value = v, minValue = 1, maxValue = 5\<rparr>]) = [5]
   \<and> map value (optimizeSettings (- 50) [\<lparr>name = n, value = v, minValue = 1, maxValue = 5\<rparr>]) = [1]
   \<and> map value (optimizeSettings 35 [\<lparr>name = n, value = v, minValue = 1, maxValue = 5\<rparr>]) = [3]"
proof -
  have "sint (value (optimizeSettings t settings ! i))
        = derive_spec (sint t) (sint (minValue (settings ! i))) (sint (maxValue (settings ! i)))"
    if "i < length settings" "sint (minValue (settings ! i)) \<le> sint (maxValue (settings ! i))" for i
    using that
    by (simp add: optimizeSettings_map sint_clamp sint_int_div_10 sdiv_10_trunc derive_spec_def)
  moreover have "map value (optimizeSettings 1000 [\<lparr>name = n, value = v, minValue = 1, maxValue = 5\<rparr>]) = [5]"
    by (simp add: std_min_def std_max_def int_div_def)
  moreover have "map value (optimizeSettings (- 50) [\<lparr>name = n, value = v, minValue = 1, maxValue = 5\<rparr>]) = [1]"
    by (simp add: std_min_def std_max_def int_div_def)
  moreover have "map value (optimizeSettings 35 [\<lparr>name = n, value = v, minValue = 1, maxValue = 5\<rparr>]) = [3]"
    by (simp add: std_min_def std_max_def int_div_def)
  ultimately show ?thesis by blast
qed

theorem optimizeSettings_derive_witness:
  "sint (minValue \<lparr>name = ''Shadow Quality'', value = 2, minValue = - 5, maxValue = 4\<rparr>)
     \<le> sint (maxValue \<lparr>name = ''Shadow Quality'', value = 2, minValue = - 5, maxValue = 4\<rparr>)
   \<and> sint (value (optimizeSettings (- 25)
        [\<lparr>name = ''Shadow Quality'', value = 2, minValue = - 5, maxValue = 4\<rparr>] ! 0))
     = derive_spec (- 25) (- 5) 4
   \<and> derive_spec (- 25) (- 5) 4 = - 2"
  using optimizeSettings_derive
    [of "[\<lparr>name = ''Shadow Quality'', value = 2, minValue = - 5, maxValue = 4\<rparr>]" "- 25"]
  by (simp add: derive_spec_def clamp_spec_def trunc_div_spec_def)




text \<open>
  C6: for every registry, every name that no setting of the registry has and every raw
  value, updateSetting leaves the registry as it was. The function has no error path: it
  returns the registry, changed or not.
\<close>

theorem updateSetting_unknown_name:
  "n \<notin> set (map name settings) \<Longrightarrow> updateSetting n v settings = settings"
  by (induction settings) auto

theorem updateSetting_unknown_name_witness:
  "''DoesNotExist'' \<notin> set (map name
      [\<lparr>name = ''Resolution'', value = 1080, minValue = 720, maxValue = 2160\<rparr>,
       \<lparr>name = ''Texture Quality'', value = 3, minValue = 1, maxValue = 5\<rparr>])
   \<and> updateSetting ''DoesNotExist'' 99
      [\<lparr>name = ''Resolution'', value = 1080, minValue = 720, maxValue = 2160\<rparr>,
       \<lparr>name = ''Texture Quality'', value = 3, minValue = 1, maxValue = 5\<rparr>]
     = [\<lparr>name = ''Resolution'', value = 1080, minValue = 720, maxValue = 2160\<rparr>,
        \<lparr>name = ''Texture Quality'', value = 3, minValue = 1, maxValue = 5\<rparr>]"
  using updateSetting_unknown_name [of "''DoesNotExist''"
      "[\<lparr>name = ''Resolution'', value = 1080, minValue = 720, maxValue = 2160\<rparr>,
        \<lparr>name = ''Texture Quality'', value = 3, minValue = 1, maxValue = 5\<rparr>]" 99]
  by simp

text \<open>
  C7: optimizeSettings is idempotent. For every registry and every target performance,
  running optimizeSettings twice with the same target gives the registry that running it
  once gives.
\<close>

theorem optimizeSettings_idempotent:
  "optimizeSettings t (optimizeSettings t settings) = optimizeSettings t settings"
  by (induction settings) simp_all

text \<open>
  C8: optimizeSettings and updateSetting change nothing but values. After either call the
  registry has the same number of settings, and the names, the lower bounds and the upper
  bounds are the same, position by position.
\<close>

theorem only_value_changes:
  "length (optimizeSettings t settings) = length settings
   \<and> map name (optimizeSettings t settings) = map name settings
   \<and> map minValue (optimizeSettings t settings) = map minValue settings
   \<and> map maxValue (optimizeSettings t settings) = map maxValue settings
   \<and> length (updateSetting n v settings) = length settings
   \<and> map name (updateSetting n v settings) = map name settings
   \<and> map minValue (updateSetting n v settings) = map minValue settings
   \<and> map maxValue (updateSetting n v settings) = map maxValue settings"
  by (simp add: optimizeSettings_map updateSetting_map)

text \<open>
  C9: a setting whose bounds are inverted, \<^verbatim>\<open>minValue > maxValue\<close>, gets exactly maxValue as
  its value from optimizeSettings, whatever the target, and from updateSetting under its
  name, whatever the raw value: the inner \<^verbatim>\<open>std::max\<close> gives at least minValue, which is
  above maxValue, and the outer \<^verbatim>\<open>std::min\<close> then picks maxValue.
\<close>

theorem inverted_bounds_give_maxValue:
  "(\<forall>i<length settings. sint (maxValue (settings ! i)) < sint (minValue (settings ! i)) \<longrightarrow>
      value (optimizeSettings t settings ! i) = maxValue (settings ! i))
   \<and> (\<forall>i<length settings.
        name (settings ! i) = n \<and> sint (maxValue (settings ! i)) < sint (minValue (settings ! i)) \<longrightarrow>
        value (updateSetting n v settings ! i) = maxValue (settings ! i))"
  by (simp add: optimizeSettings_map updateSetting_map clamp_inverted)

theorem inverted_bounds_give_maxValue_witness:
  "sint (maxValue \<lparr>name = ''Fog'', value = 7, minValue = 5, maxValue = 1\<rparr>)
     < sint (minValue \<lparr>name = ''Fog'', value = 7, minValue = 5, maxValue = 1\<rparr>)
   \<and> value (optimizeSettings 90 [\<lparr>name = ''Fog'', value = 7, minValue = 5, maxValue = 1\<rparr>] ! 0) = 1
   \<and> value (updateSetting ''Fog'' (- 3) [\<lparr>name = ''Fog'', value = 7, minValue = 5, maxValue = 1\<rparr>] ! 0) = 1"
  using inverted_bounds_give_maxValue
     [of "[\<lparr>name = ''Fog'', value = 7, minValue = 5, maxValue = 1\<rparr>]" 90 "''Fog''" "- 3"]
  by simp

section \<open>Properties of the settings file\<close>

text \<open>
  C5: for every prior registry, loading the text of \<open>malformed_example\<close> does what the single
  call \<^verbatim>\<open>updateSetting("Resolution", 1440)\<close> does and returns the registry without any
  error. A setting named Resolution gets 1440 clamped into its bounds: with
  \<^verbatim>\<open>minValue <= maxValue\<close> its value is the specification's clamp of 1440, which is 1440
  itself when the bounds contain it, and with inverted bounds it is maxValue. Every other
  setting, a setting named TextureQuality among them, stays as it was. A line without a
  separator, and a line whose text after the separator does not parse as an \<^verbatim>\<open>int\<close>,
  is skipped: alone it leaves the registry as it was, and anywhere in a file the loop goes
  on to the lines after it, so that the file loads as the file without that line does.
\<close>

theorem malformed_lines_skipped:
  "loadSettings (Some malformed_example) settings = updateSetting ''Resolution'' 1440 settings
   \<and> length (loadSettings (Some malformed_example) settings) = length settings
   \<and> (\<forall>i<length settings. name (settings ! i) = ''Resolution'' \<longrightarrow>
         loadSettings (Some malformed_example) settings ! i
           = (settings ! i)\<lparr>value := std_min (maxValue (settings ! i))
                                           (std_max (minValue (settings ! i)) 1440)\<rparr>)
   \<and> (\<forall>i<length settings. name (settings ! i) = ''Resolution''
           \<and> sint (minValue (settings ! i)) \<le> sint (maxValue (settings ! i)) \<longrightarrow>
         sint (value (loadSettings (Some malformed_example) settings ! i))
           = clamp_spec 1440 (sint (minValue (settings ! i))) (sint (maxValue (settings ! i))))
   \<and> (\<forall>i<length settings. name (settings ! i) = ''Resolution''
           \<and> sint (maxValue (settings ! i)) < sint (minValue (settings ! i)) \<longrightarrow>
         value (loadSettings (Some malformed_example) settings ! i) = maxValue (settings ! i))
   \<and> (\<forall>i<length settings. name (settings ! i) = ''Resolution''
           \<and> sint (minValue (settings ! i)) \<le> 1440 \<and> 1440 \<le> sint (maxValue (settings ! i)) \<longrightarrow>
         value (loadSettings (Some malformed_example) settings ! i) = 1440)
   \<and> (\<forall>i<length settings. name (settings ! i) \<noteq> ''Resolution'' \<longrightarrow>
         loadSettings (Some malformed_example) settings ! i = settings ! i)
   \<and> (\<forall>i<length settings. name (settings ! i) = ''TextureQuality'' \<longrightarrow>
         loadSettings (Some malformed_example) settings ! i = settings ! i)
   \<and> (\<forall>l. CHR ''='' \<notin> set l \<longrightarrow> loadLine l settings = settings)
   \<and> (\<forall>nm rest. CHR ''='' \<notin> set nm \<and> extract_int rest False = None \<longrightarrow>
         loadLine (nm @ ''='' @ rest) settings = settings)
   \<and> (\<forall>before l after.
         (before = [] \<or> last before = newline) \<and> newline \<notin> set l \<and> CHR ''='' \<notin> set l \<longrightarrow>
         loadSettings (Some (before @ l @ [newline] @ after)) settings
           = loadSettings (Some (before @ after)) settings)
   \<and> (\<forall>before nm rest after.
         (before = [] \<or> last before = newline) \<and> newline \<notin> set nm \<and> newline \<notin> set rest
           \<and> CHR ''='' \<notin> set nm \<and> extract_int rest False = None \<longrightarrow>
         loadSettings (Some (before @ (nm @ ''='' @ rest) @ [newline] @ after)) settings
           = loadSettings (Some (before @ after)) settings)"
proof -
  let ?R = "loadSettings (Some malformed_example) settings"
  have e: "?R = updateSetting ''Resolution'' 1440 settings"
    by (simp add: loadSettings_def loadLoop_malformed_example)
  have len: "length ?R = length settings"
    by (simp add: e length_updateSetting)
  have upd: "?R ! i = (settings ! i)\<lparr>value := std_min (maxValue (settings ! i))
                                                   (std_max (minValue (settings ! i)) 1440)\<rparr>"
    if "i < length settings" "name (settings ! i) = ''Resolution''" for i
    using that by (simp add: e updateSetting_map)
  have ordered: "sint (value (?R ! i))
                   = clamp_spec 1440 (sint (minValue (settings ! i))) (sint (maxValue (settings ! i)))"
    if "i < length settings" "name (settings ! i) = ''Resolution''"
      "sint (minValue (settings ! i)) \<le> sint (maxValue (settings ! i))" for i
    using that sint_clamp [of "minValue (settings ! i)" "maxValue (settings ! i)" 1440]
    by (simp add: upd)
  have inverted: "value (?R ! i) = maxValue (settings ! i)"
    if "i < length settings" "name (settings ! i) = ''Resolution''"
      "sint (maxValue (settings ! i)) < sint (minValue (settings ! i))" for i
    using that by (simp add: upd clamp_inverted)
  have inside: "value (?R ! i) = 1440"
    if "i < length settings" "name (settings ! i) = ''Resolution''"
      "sint (minValue (settings ! i)) \<le> 1440" "1440 \<le> sint (maxValue (settings ! i))" for i
    using that clamp_within [of "minValue (settings ! i)" 1440 "maxValue (settings ! i)"]
    by (simp add: upd)
  have other: "?R ! i = settings ! i"
    if "i < length settings" "name (settings ! i) \<noteq> ''Resolution''" for i
    using that by (simp add: e updateSetting_map)
  have texture: "?R ! i = settings ! i"
    if "i < length settings" "name (settings ! i) = ''TextureQuality''" for i
    using that by (simp add: other)
  have line1: "loadLine l settings = settings" if "CHR ''='' \<notin> set l" for l
    using that by (rule loadLine_no_separator)
  have line2: "loadLine (nm @ ''='' @ rest) settings = settings"
    if "CHR ''='' \<notin> set nm" "extract_int rest False = None" for nm rest
    using that by (simp add: loadLine_unparsed)
  have loop1: "loadSettings (Some (before @ l @ [newline] @ after)) settings
                 = loadSettings (Some (before @ after)) settings"
    if "before = [] \<or> last before = newline" "newline \<notin> set l" "CHR ''='' \<notin> set l"
    for before l after
    unfolding loadSettings_def option.case
    using that(1,2)
  proof (rule loadLoop_skips_line)
    fix s show "loadLine l s = s"
      using that(3) by (rule loadLine_no_separator)
  qed
  have loop2: "loadSettings (Some (before @ (nm @ ''='' @ rest) @ [newline] @ after)) settings
                 = loadSettings (Some (before @ after)) settings"
    if "before = [] \<or> last before = newline" "newline \<notin> set nm" "newline \<notin> set rest"
      "CHR ''='' \<notin> set nm" "extract_int rest False = None"
    for before nm rest after
    unfolding loadSettings_def option.case
  proof (rule loadLoop_skips_line)
    show "before = [] \<or> last before = newline"
      by (rule that(1))
    show "newline \<notin> set (nm @ ''='' @ rest)"
      using that(2,3) by (simp add: newline_def)
    fix s show "loadLine (nm @ ''='' @ rest) s = s"
      using that(4,5) by (simp add: loadLine_unparsed)
  qed
  show ?thesis
    apply (intro conjI allI impI)
    subgoal by (rule e)
    subgoal by (rule len)
    subgoal by (rule upd)
    subgoal by (elim conjE) (rule ordered)
    subgoal by (elim conjE) (rule inverted)
    subgoal by (elim conjE) (rule inside)
    subgoal by (rule other)
    subgoal by (rule texture)
    subgoal by (rule line1)
    subgoal by (elim conjE) (rule line2)
    subgoal by (elim conjE) (rule loop1)
    subgoal by (elim conjE) (rule loop2)
    done
qed

theorem malformed_lines_skipped_witness:
  "(2::nat) < length [\<lparr>name = ''Resolution'', value = 3, minValue = 1, maxValue = 5\<rparr>,
                     \<lparr>name = ''TextureQuality'', value = 3, minValue = 1, maxValue = 5\<rparr>,
                     \<lparr>name = ''Resolution'', value = 1080, minValue = 720, maxValue = 2160\<rparr>]
   \<and> sint (1 :: int32) \<le> sint (5 :: int32)
   \<and> newline \<notin> set ''garbageline'' \<and> CHR ''='' \<notin> set ''garbageline''
   \<and> newline \<notin> set ''TextureQuality'' \<and> CHR ''='' \<notin> set ''TextureQuality''
   \<and> newline \<notin> set ''abc'' \<and> extract_int ''abc'' False = None
   \<and> loadSettings (Some malformed_example)
        [\<lparr>name = ''Resolution'', value = 3, minValue = 1, maxValue = 5\<rparr>,
         \<lparr>name = ''TextureQuality'', value = 3, minValue = 1, maxValue = 5\<rparr>,
         \<lparr>name = ''Resolution'', value = 1080, minValue = 720, maxValue = 2160\<rparr>]
      = [\<lparr>name = ''Resolution'', value = 5, minValue = 1, maxValue = 5\<rparr>,
         \<lparr>name = ''TextureQuality'', value = 3, minValue = 1, maxValue = 5\<rparr>,
         \<lparr>name = ''Resolution'', value = 1440, minValue = 720, maxValue = 2160\<rparr>]
   \<and> sint (value (loadSettings (Some malformed_example)
        [\<lparr>name = ''Resolution'', value = 3, minValue = 1, maxValue = 5\<rparr>,
         \<lparr>name = ''TextureQuality'', value = 3, minValue = 1, maxValue = 5\<rparr>,
         \<lparr>name = ''Resolution'', value = 1080, minValue = 720, maxValue = 2160\<rparr>] ! 0))
      = clamp_spec 1440 1 5
   \<and> clamp_spec 1440 1 5 = 5
   \<and> loadSettings
        (Some (''garbageline'' @ [newline] @ ''TextureQuality=abc'' @ [newline]
                 @ ''Resolution=1440'' @ [newline]))
        [\<lparr>name = ''Resolution'', value = 3, minValue = 1, maxValue = 5\<rparr>,
         \<lparr>name = ''TextureQuality'', value = 3, minValue = 1, maxValue = 5\<rparr>,
         \<lparr>name = ''Resolution'', value = 1080, minValue = 720, maxValue = 2160\<rparr>]
      = [\<lparr>name = ''Resolution'', value = 5, minValue = 1, maxValue = 5\<rparr>,
         \<lparr>name = ''TextureQuality'', value = 3, minValue = 1, maxValue = 5\<rparr>,
         \<lparr>name = ''Resolution'', value = 1440, minValue = 720, maxValue = 2160\<rparr>]"
proof -
  let ?S = "[\<lparr>name = ''Resolution'', value = 3, minValue = 1, maxValue = 5\<rparr>,
             \<lparr>name = ''TextureQuality'', value = 3, minValue = 1, maxValue = 5\<rparr>,
             \<lparr>name = ''Resolution'', value = 1080, minValue = 720, maxValue = 2160\<rparr>]"
  let ?T = "[\<lparr>name = ''Resolution'', value = 5, minValue = 1, maxValue = 5\<rparr>,
             \<lparr>name = ''TextureQuality'', value = 3, minValue = 1, maxValue = 5\<rparr>,
             \<lparr>name = ''Resolution'', value = 1440, minValue = 720, maxValue = 2160\<rparr>]"
  note t = malformed_lines_skipped [of ?S]
  have side: "newline \<notin> set ''garbageline''" "CHR ''='' \<notin> set ''garbageline''"
    "newline \<notin> set ''TextureQuality''" "CHR ''='' \<notin> set ''TextureQuality''"
    "newline \<notin> set ''abc''"
    by (simp_all add: newline_def)
  have abc: "extract_int ''abc'' False = None"
    by (simp add: extract_int_def isspace_def isdigit_def)
  from t have "loadSettings (Some malformed_example) ?S = updateSetting ''Resolution'' 1440 ?S"
    by (rule conjunct1)
  then have whole: "loadSettings (Some malformed_example) ?S = ?T"
    by (simp add: std_min_def std_max_def)
  from t have "\<forall>i<length ?S. name (?S ! i) = ''Resolution''
           \<and> sint (minValue (?S ! i)) \<le> sint (maxValue (?S ! i)) \<longrightarrow>
         sint (value (loadSettings (Some malformed_example) ?S ! i))
           = clamp_spec 1440 (sint (minValue (?S ! i))) (sint (maxValue (?S ! i)))"
    by (elim conjE)
  from this [THEN spec, of 0]
  have first: "sint (value (loadSettings (Some malformed_example) ?S ! 0)) = clamp_spec 1440 1 5"
    by simp
  have five: "clamp_spec 1440 1 5 = 5"
    by (simp add: clamp_spec_def)
  from t have s1: "\<forall>before l after.
         (before = [] \<or> last before = newline) \<and> newline \<notin> set l \<and> CHR ''='' \<notin> set l \<longrightarrow>
         loadSettings (Some (before @ l @ [newline] @ after)) ?S
           = loadSettings (Some (before @ after)) ?S"
    by (elim conjE)
  from t have s2: "\<forall>before nm rest after.
         (before = [] \<or> last before = newline) \<and> newline \<notin> set nm \<and> newline \<notin> set rest
           \<and> CHR ''='' \<notin> set nm \<and> extract_int rest False = None \<longrightarrow>
         loadSettings (Some (before @ (nm @ ''='' @ rest) @ [newline] @ after)) ?S
           = loadSettings (Some (before @ after)) ?S"
    by (elim conjE)
  have "loadSettings (Some ([] @ ''garbageline'' @ [newline]
            @ (''TextureQuality=abc'' @ [newline] @ ''Resolution=1440'' @ [newline]))) ?S
        = loadSettings (Some ([] @ (''TextureQuality=abc'' @ [newline] @ ''Resolution=1440'' @ [newline]))) ?S"
    by (rule s1 [rule_format]) (simp add: newline_def)
  also have "\<dots> = loadSettings (Some ([] @ (''TextureQuality'' @ ''='' @ ''abc'') @ [newline]
                        @ (''Resolution=1440'' @ [newline]))) ?S"
    by simp
  also have "\<dots> = loadSettings (Some ([] @ (''Resolution=1440'' @ [newline]))) ?S"
    by (rule s2 [rule_format]) (simp add: newline_def abc)
  also have "\<dots> = loadLoop (''Resolution=1440'' @ newline # []) ?S"
    by (simp add: loadSettings_def)
  also have "\<dots> = loadLoop [] (loadLine ''Resolution=1440'' ?S)"
    by (rule loadLoop_line) (simp add: newline_def)
  also have "\<dots> = ?T"
    by (simp add: loadLoop_empty loadLine_Resolution_1440 std_min_def std_max_def)
  finally have reordered: "loadSettings
        (Some (''garbageline'' @ [newline] @ ''TextureQuality=abc'' @ [newline]
                 @ ''Resolution=1440'' @ [newline])) ?S = ?T"
    by simp
  have "(2::nat) < length ?S" and "sint (1 :: int32) \<le> sint (5 :: int32)"
    by simp_all
  with side abc whole first five reordered show ?thesis
    by (intro conjI)
qed

text \<open>
  C10: a line is accepted when the text after its first separator is optional white
  space, an optional sign and a run of digits that denote a number an \<^verbatim>\<open>int\<close> can hold,
  whatever characters follow the last digit: the setting named before the separator is
  updated to that number. The line \<^verbatim>\<open>Resolution=1440abc\<close> updates Resolution to 1440, alone
  or as a line of a file.
\<close>

theorem trailing_characters_accepted:
  "(CHR ''='' \<notin> set nm \<and> list_all isspace ws \<and> sg \<in> {[], ''+'', ''-''}
      \<and> ds \<noteq> [] \<and> list_all isdigit ds \<and> (trailing = [] \<or> \<not> isdigit (hd trailing))
      \<and> - (2 ^ 31) \<le> decimal_value sg ds \<and> decimal_value sg ds < 2 ^ 31 \<longrightarrow>
    loadLine (nm @ ''='' @ ws @ sg @ ds @ trailing) settings
      = updateSetting nm (word_of_int (decimal_value sg ds)) settings)
   \<and> loadLine ''Resolution=1440abc'' settings = updateSetting ''Resolution'' 1440 settings
   \<and> loadSettings (Some (''Resolution=1440abc'' @ [newline])) settings
       = updateSetting ''Resolution'' 1440 settings"
proof -
  have general: "loadLine (nm @ ''='' @ ws @ sg @ ds @ trailing) settings
      = updateSetting nm (word_of_int (decimal_value sg ds)) settings"
    if h: "CHR ''='' \<notin> set nm" "list_all isspace ws" "sg \<in> {[], ''+'', ''-''}"
      "ds \<noteq> []" "list_all isdigit ds" "trailing = [] \<or> \<not> isdigit (hd trailing)"
      "- (2 ^ 31) \<le> decimal_value sg ds" "decimal_value sg ds < 2 ^ 31"
    for nm ws sg ds trailing
  proof -
    from h(3) consider "sg = []" | "sg = ''+''" | "sg = ''-''"
      by auto
    then have "extract_int (ws @ sg @ ds @ trailing) False = Some (word_of_int (decimal_value sg ds))"
    proof cases
      case 1
      with h(7,8) extract_int_unsigned [OF h(2,4,5,6)] show ?thesis
        by (simp add: decimal_value_def)
    next
      case 2
      with h(7,8) extract_int_plus [OF h(2,4,5,6)] show ?thesis
        by (simp add: decimal_value_def)
    next
      case 3
      with h(7,8) extract_int_minus [OF h(2,4,5,6)] show ?thesis
        by (simp add: decimal_value_def)
    qed
    with h(1) show ?thesis
      using loadLine_separator [of nm "ws @ sg @ ds @ trailing" settings] by simp
  qed
  have ex: "extract_int ''1440abc'' False = Some 1440"
    by (simp add: extract_int_def isspace_def isdigit_def digits_value_def digit_val_def)
  have line: "loadLine ''Resolution=1440abc'' settings = updateSetting ''Resolution'' 1440 settings"
    using ex loadLine_separator [of "''Resolution''" "''1440abc''" settings] by simp
  have "loadLoop (''Resolution=1440abc'' @ newline # []) settings
          = loadLoop [] (loadLine ''Resolution=1440abc'' settings)"
    by (rule loadLoop_line) (simp add: newline_def)
  then have "loadSettings (Some (''Resolution=1440abc'' @ [newline])) settings
               = updateSetting ''Resolution'' 1440 settings"
    by (simp add: loadSettings_def loadLoop_empty line)
  with general line show ?thesis
    by blast
qed

theorem trailing_characters_accepted_witness:
  "CHR ''='' \<notin> set ''Shadow Quality'' \<and> list_all isspace '' '' \<and> ''-'' \<in> {[], ''+'', ''-''}
   \<and> ''12'' \<noteq> [] \<and> list_all isdigit ''12'' \<and> \<not> isdigit (hd ''px'')
   \<and> - (2 ^ 31) \<le> decimal_value ''-'' ''12'' \<and> decimal_value ''-'' ''12'' < 2 ^ 31
   \<and> loadLine ''Shadow Quality= -12px''
        [\<lparr>name = ''Shadow Quality'', value = 2, minValue = - 20, maxValue = 4\<rparr>]
      = [\<lparr>name = ''Shadow Quality'', value = - 12, minValue = - 20, maxValue = 4\<rparr>]"
proof -
  have d: "decimal_value ''-'' ''12'' = - 12"
    by (simp add: decimal_value_def digits_value_def digit_val_def)
  have h: "CHR ''='' \<notin> set ''Shadow Quality'' \<and> list_all isspace '' '' \<and> ''-'' \<in> {[], ''+'', ''-''}
      \<and> ''12'' \<noteq> [] \<and> list_all isdigit ''12'' \<and> \<not> isdigit (hd ''px'')
      \<and> - (2 ^ 31) \<le> decimal_value ''-'' ''12'' \<and> decimal_value ''-'' ''12'' < 2 ^ 31"
    by (simp add: d isspace_def isdigit_def)
  from trailing_characters_accepted
         [of "''Shadow Quality''" "'' ''" "''-''" "''12''" "''px''"
             "[\<lparr>name = ''Shadow Quality'', value = 2, minValue = - 20, maxValue = 4\<rparr>]"] h
  have "loadLine (''Shadow Quality'' @ ''='' @ '' '' @ ''-'' @ ''12'' @ ''px'')
          [\<lparr>name = ''Shadow Quality'', value = 2, minValue = - 20, maxValue = 4\<rparr>]
        = updateSetting ''Shadow Quality'' (word_of_int (decimal_value ''-'' ''12''))
          [\<lparr>name = ''Shadow Quality'', value = 2, minValue = - 20, maxValue = 4\<rparr>]"
    by blast
  then have "loadLine ''Shadow Quality= -12px''
        [\<lparr>name = ''Shadow Quality'', value = 2, minValue = - 20, maxValue = 4\<rparr>]
      = [\<lparr>name = ''Shadow Quality'', value = - 12, minValue = - 20, maxValue = 4\<rparr>]"
    by (simp add: d std_min_def std_max_def)
  with h show ?thesis
    by blast
qed

text \<open>
  C3, as the specification states it: every registry whose values are within their bounds
  is reproduced by saving it and loading the text into a registry with the same
  definitions and any defaults. The file has no escaping and \<^verbatim>\<open>updateSetting\<close> addresses
  settings by name, so the claim fails in three ways: with two settings of one name both
  end with the value saved last; a name that contains the separator is cut at it and the
  rest of the line is not a number; a name that contains a line break is split over two
  lines. In each case the loaded registry differs from the saved one.
\<close>

theorem round_trip_counterexample:
  "map value (loadSettings (saveSettings True
       [\<lparr>name = ''Shadow'', value = 1, minValue = 1, maxValue = 4\<rparr>,
        \<lparr>name = ''Shadow'', value = 2, minValue = 1, maxValue = 4\<rparr>])
       [\<lparr>name = ''Shadow'', value = 1, minValue = 1, maxValue = 4\<rparr>,
        \<lparr>name = ''Shadow'', value = 2, minValue = 1, maxValue = 4\<rparr>])
     \<noteq> [1, 2]
   \<and> map value (loadSettings (saveSettings True
         [\<lparr>name = ''a=b'', value = 3, minValue = 1, maxValue = 5\<rparr>])
         [\<lparr>name = ''a=b'', value = 1, minValue = 1, maxValue = 5\<rparr>])
     \<noteq> [3]
   \<and> map value (loadSettings (saveSettings True
         [\<lparr>name = [CHR ''a'', newline, CHR ''b''], value = 3, minValue = 1, maxValue = 5\<rparr>])
         [\<lparr>name = [CHR ''a'', newline, CHR ''b''], value = 1, minValue = 1, maxValue = 5\<rparr>])
     \<noteq> [3]"
proof -
  have one: "loadSettings (saveSettings True
       [\<lparr>name = ''Shadow'', value = 1, minValue = 1, maxValue = 4\<rparr>,
        \<lparr>name = ''Shadow'', value = 2, minValue = 1, maxValue = 4\<rparr>])
       [\<lparr>name = ''Shadow'', value = 1, minValue = 1, maxValue = 4\<rparr>,
        \<lparr>name = ''Shadow'', value = 2, minValue = 1, maxValue = 4\<rparr>]
     = [\<lparr>name = ''Shadow'', value = 2, minValue = 1, maxValue = 4\<rparr>,
        \<lparr>name = ''Shadow'', value = 2, minValue = 1, maxValue = 4\<rparr>]"
    by (subst loadSettings_saveSettings) (simp_all add: newline_def restore_def std_min_def std_max_def)
  have x3: "show_int 3 = ''3''"
    by (simp add: show_int_def digits_of.simps digit_char_def)
  have hdr: "loadLine ''Game Settings:'' s = s" for s
    by (rule loadLine_no_separator) simp
  have "loadLoop (''Game Settings:'' @ newline # ''a=b=3'' @ newline # [])
          [\<lparr>name = ''a=b'', value = 1, minValue = 1, maxValue = 5\<rparr>]
        = loadLoop (''a=b=3'' @ newline # [])
            (loadLine ''Game Settings:'' [\<lparr>name = ''a=b'', value = 1, minValue = 1, maxValue = 5\<rparr>])"
    by (rule loadLoop_line) (simp add: newline_def)
  also have "\<dots> = loadLoop (''a=b=3'' @ newline # [])
                     [\<lparr>name = ''a=b'', value = 1, minValue = 1, maxValue = 5\<rparr>]"
    by (simp only: hdr)
  also have "\<dots> = loadLoop [] (loadLine ''a=b=3'' [\<lparr>name = ''a=b'', value = 1, minValue = 1, maxValue = 5\<rparr>])"
    by (rule loadLoop_line) (simp add: newline_def)
  also have "loadLine ''a=b=3'' [\<lparr>name = ''a=b'', value = 1, minValue = 1, maxValue = 5\<rparr>]
               = [\<lparr>name = ''a=b'', value = 1, minValue = 1, maxValue = 5\<rparr>]"
    using loadLine_separator [of "''a''" "''b=3''"]
    by (simp add: extract_int_def isspace_def isdigit_def)
  finally have two: "loadSettings (saveSettings True
         [\<lparr>name = ''a=b'', value = 3, minValue = 1, maxValue = 5\<rparr>])
         [\<lparr>name = ''a=b'', value = 1, minValue = 1, maxValue = 5\<rparr>]
       = [\<lparr>name = ''a=b'', value = 1, minValue = 1, maxValue = 5\<rparr>]"
    by (simp add: loadSettings_def saveSettings_def x3 loadLoop_empty)
  let ?n = "[CHR ''a'', newline, CHR ''b'']"
  have "loadLoop (''Game Settings:'' @ newline # ''a'' @ newline # ''b=3'' @ newline # [])
          [\<lparr>name = ?n, value = 1, minValue = 1, maxValue = 5\<rparr>]
        = loadLoop (''a'' @ newline # ''b=3'' @ newline # [])
            (loadLine ''Game Settings:'' [\<lparr>name = ?n, value = 1, minValue = 1, maxValue = 5\<rparr>])"
    by (rule loadLoop_line) (simp add: newline_def)
  also have "\<dots> = loadLoop (''a'' @ newline # ''b=3'' @ newline # [])
                     [\<lparr>name = ?n, value = 1, minValue = 1, maxValue = 5\<rparr>]"
    by (simp only: hdr)
  also have "\<dots> = loadLoop (''b=3'' @ newline # [])
                     (loadLine ''a'' [\<lparr>name = ?n, value = 1, minValue = 1, maxValue = 5\<rparr>])"
    by (rule loadLoop_line) (simp add: newline_def)
  also have "loadLine ''a'' [\<lparr>name = ?n, value = 1, minValue = 1, maxValue = 5\<rparr>]
               = [\<lparr>name = ?n, value = 1, minValue = 1, maxValue = 5\<rparr>]"
    by (rule loadLine_no_separator) simp
  also have "loadLoop (''b=3'' @ newline # []) [\<lparr>name = ?n, value = 1, minValue = 1, maxValue = 5\<rparr>]
               = loadLoop [] (loadLine ''b=3'' [\<lparr>name = ?n, value = 1, minValue = 1, maxValue = 5\<rparr>])"
    by (rule loadLoop_line) (simp add: newline_def)
  also have "loadLine ''b=3'' [\<lparr>name = ?n, value = 1, minValue = 1, maxValue = 5\<rparr>]
               = [\<lparr>name = ?n, value = 1, minValue = 1, maxValue = 5\<rparr>]"
    using loadLine_separator [of "''b''" "''3''"]
    by (simp add: extract_int_def isspace_def isdigit_def digits_value_def digit_val_def)
  finally have three: "loadSettings (saveSettings True
         [\<lparr>name = ?n, value = 3, minValue = 1, maxValue = 5\<rparr>])
         [\<lparr>name = ?n, value = 1, minValue = 1, maxValue = 5\<rparr>]
       = [\<lparr>name = ?n, value = 1, minValue = 1, maxValue = 5\<rparr>]"
    by (simp add: loadSettings_def saveSettings_def x3 loadLoop_empty)
  show ?thesis
    unfolding one two three by simp
qed

text \<open>
  C3, amended: for every registry whose settings have pairwise different names, none of
  which contains the separator or a line break, and whose values are all within their
  bounds, saving it and loading the text into a registry with the same names and bounds
  in the same order, and any values, gives back the saved registry: every setting has the
  value it had when it was saved.
\<close>

theorem round_trip:
  assumes "distinct (map name saved)"
    and "\<forall>s\<in>set saved. CHR ''='' \<notin> set (name s) \<and> newline \<notin> set (name s)"
    and "list_all in_bounds saved"
    and "map name fresh = map name saved"
    and "map minValue fresh = map minValue saved"
    and "map maxValue fresh = map maxValue saved"
  shows "loadSettings (saveSettings True saved) fresh = saved"
  using assms by (simp add: loadSettings_saveSettings map_fold_restore)

theorem round_trip_witness:
  "distinct (map name
      [\<lparr>name = ''Resolution'', value = 1440, minValue = 720, maxValue = 2160\<rparr>,
       \<lparr>name = ''TextureQuality'', value = 3, minValue = 1, maxValue = 5\<rparr>])
   \<and> CHR ''='' \<notin> set ''Resolution'' \<and> newline \<notin> set ''Resolution''
   \<and> CHR ''='' \<notin> set ''TextureQuality'' \<and> newline \<notin> set ''TextureQuality''
   \<and> list_all in_bounds
        [\<lparr>name = ''Resolution'', value = 1440, minValue = 720, maxValue = 2160\<rparr>,
         \<lparr>name = ''TextureQuality'', value = 3, minValue = 1, maxValue = 5\<rparr>]
   \<and> loadSettings (saveSettings True
        [\<lparr>name = ''Resolution'', value = 1440, minValue = 720, maxValue = 2160\<rparr>,
         \<lparr>name = ''TextureQuality'', value = 3, minValue = 1, maxValue = 5\<rparr>])
        [\<lparr>name = ''Resolution'', value = 1080, minValue = 720, maxValue = 2160\<rparr>,
         \<lparr>name = ''TextureQuality'', value = 9, minValue = 1, maxValue = 5\<rparr>]
      = [\<lparr>name = ''Resolution'', value = 1440, minValue = 720, maxValue = 2160\<rparr>,
         \<lparr>name = ''TextureQuality'', value = 3, minValue = 1, maxValue = 5\<rparr>]"
proof -
  let ?saved = "[\<lparr>name = ''Resolution'', value = 1440, minValue = 720, maxValue = 2160\<rparr>,
                 \<lparr>name = ''TextureQuality'', value = 3, minValue = 1, maxValue = 5\<rparr>]"
  let ?fresh = "[\<lparr>name = ''Resolution'', value = 1080, minValue = 720, maxValue = 2160\<rparr>,
                 \<lparr>name = ''TextureQuality'', value = 9, minValue = 1, maxValue = 5\<rparr>]"
  have h1: "distinct (map name ?saved)"
    by simp
  have n: "CHR ''='' \<notin> set ''Resolution''" "newline \<notin> set ''Resolution''"
    "CHR ''='' \<notin> set ''TextureQuality''" "newline \<notin> set ''TextureQuality''"
    by (simp_all add: newline_def)
  then have h2: "\<forall>s\<in>set ?saved. CHR ''='' \<notin> set (name s) \<and> newline \<notin> set (name s)"
    by simp
  have h3: "list_all in_bounds ?saved"
    by (simp add: in_bounds_def)
  have "loadSettings (saveSettings True ?saved) ?fresh = ?saved"
    using h1 h2 h3 by (rule round_trip) simp_all
  with h1 n h3 show ?thesis
    by blast
qed

end
